theory Spec2Isabelle
  imports Complex_Main
begin

section \<open>Numbers\<close>

text \<open>
  The source's \<open>Scalar\<close> (a C++ floating-point type) is modelled by \<open>real\<close>: every
  statement below is about exact real arithmetic, not about IEEE rounding, infinities or
  NaN. \<open>Evaluation\<close> is the automatic-differentiation number of the material library: a
  value together with its partial derivatives with respect to the primary variables of the
  cell in focus. Its arithmetic is the one of dual numbers: sums add componentwise, a
  product obeys the product rule, a \<open>Scalar\<close> converts to an \<open>Evaluation\<close> whose
  derivatives are all zero, and the comparison of an \<open>Evaluation\<close> with a \<open>Scalar\<close>
  looks at the value only.
\<close>

datatype Evaluation = Evaluation (val: real) (der: "nat \<Rightarrow> real")

instantiation Evaluation :: comm_ring_1
begin

definition zero_Evaluation :: Evaluation where
  "zero_Evaluation = Evaluation 0 (\<lambda>_. 0)"

definition one_Evaluation :: Evaluation where
  "one_Evaluation = Evaluation 1 (\<lambda>_. 0)"

definition plus_Evaluation :: "Evaluation \<Rightarrow> Evaluation \<Rightarrow> Evaluation" where
  "plus_Evaluation a b = Evaluation (val a + val b) (\<lambda>i. der a i + der b i)"

definition uminus_Evaluation :: "Evaluation \<Rightarrow> Evaluation" where
  "uminus_Evaluation a = Evaluation (- val a) (\<lambda>i. - der a i)"

definition minus_Evaluation :: "Evaluation \<Rightarrow> Evaluation \<Rightarrow> Evaluation" where
  "minus_Evaluation a b = Evaluation (val a - val b) (\<lambda>i. der a i - der b i)"

definition times_Evaluation :: "Evaluation \<Rightarrow> Evaluation \<Rightarrow> Evaluation" where
  "times_Evaluation a b =
     Evaluation (val a * val b) (\<lambda>i. der a i * val b + val a * der b i)"

instance
proof
  fix a b c :: Evaluation
  show "a + b + c = a + (b + c)"
    by (simp add: plus_Evaluation_def add.assoc)
  show "a + b = b + a"
    by (simp add: plus_Evaluation_def add.commute)
  show "0 + a = a"
    by (simp add: plus_Evaluation_def zero_Evaluation_def)
  show "- a + a = 0"
    by (simp add: plus_Evaluation_def uminus_Evaluation_def zero_Evaluation_def)
  show "a - b = a + - b"
    by (simp add: plus_Evaluation_def uminus_Evaluation_def minus_Evaluation_def)
  show "a * b * c = a * (b * c)"
    by (simp add: times_Evaluation_def algebra_simps)
  show "a * b = b * a"
    by (simp add: times_Evaluation_def algebra_simps)
  show "1 * a = a"
    by (simp add: times_Evaluation_def one_Evaluation_def)
  show "(a + b) * c = a * c + b * c"
    by (simp add: times_Evaluation_def plus_Evaluation_def algebra_simps)
  show "(0::Evaluation) \<noteq> 1"
    by (simp add: zero_Evaluation_def one_Evaluation_def)
qed

end

text \<open>A \<open>Scalar\<close> seen as an \<open>Evaluation\<close> (the converting constructor): no derivatives.\<close>

definition scalar :: "real \<Rightarrow> Evaluation" where
  "scalar x = Evaluation x (\<lambda>_. 0)"

text \<open>
  \<open>Toolbox::template decay<LhsEval>(x)\<close> and the \<open>LhsEval\<close> argument of the helpers
  \<open>getInvB_\<close>, \<open>getRs_\<close>, ...: with \<open>LhsEval = Evaluation\<close> the quantity keeps its
  derivatives, with \<open>LhsEval = Scalar\<close> only the value is taken.
\<close>

datatype LhsEval = AsScalar | AsEvaluation

definition decay :: "LhsEval \<Rightarrow> Evaluation \<Rightarrow> Evaluation" where
  "decay t x = (case t of AsScalar \<Rightarrow> scalar (val x) | AsEvaluation \<Rightarrow> x)"

section \<open>The configuration a model is instantiated with\<close>

text \<open>
  The classes of the source are templates over a \<open>TypeTag\<close>; the constants, flags and
  static functions they read from \<open>Indices\<close>, \<open>FluidSystem\<close>, \<open>MaterialLaw\<close>, the
  optional modules and the property system are declared outside the files at hand, so
  they are parameters here. Index constants are signed, as in the source, where a
  negative index marks a primary variable that does not exist. A name of the source
  that ends in an underscore is written without it.
\<close>

type_synonym MaterialLawParams = nat

record Indices =
  waterSwitchIdx :: int
  pressureSwitchIdx :: int
  compositionSwitchIdx :: int
  saltConcentrationIdx :: int
  solventSaturationIdx :: int
  zFractionIdx :: int
  temperatureIdx :: int
  waterEnabled :: bool
  gasEnabled :: bool
  oilEnabled :: bool
  conti0EqIdx :: nat
  canonicalToActiveComponentIndex :: "nat \<Rightarrow> nat"

record FluidSystem =
  gasPhaseIdx :: nat
  oilPhaseIdx :: nat
  waterPhaseIdx :: nat
  gasCompIdx :: nat
  oilCompIdx :: nat
  waterCompIdx :: nat
  phaseIsActive :: "nat \<Rightarrow> bool"
  solventComponentIndex :: "nat \<Rightarrow> nat"
  enableDissolvedGas :: bool
  enableDissolvedGasInWater :: bool
  enableVaporizedOil :: bool
  enableVaporizedWater :: bool
  reservoirTemperature :: real
  referenceDensity :: "nat \<Rightarrow> nat \<Rightarrow> real"
  gasPvt_saturatedWaterVaporizationFactor :: "nat \<Rightarrow> real \<Rightarrow> real \<Rightarrow> real \<Rightarrow> real"
  waterPvt_saturatedGasDissolutionFactor :: "nat \<Rightarrow> real \<Rightarrow> real \<Rightarrow> real \<Rightarrow> real"
  oilPvt_saturatedGasDissolutionFactor :: "nat \<Rightarrow> real \<Rightarrow> real \<Rightarrow> real \<Rightarrow> real \<Rightarrow> real"
  gasPvt_saturatedOilVaporizationFactor :: "nat \<Rightarrow> real \<Rightarrow> real \<Rightarrow> real \<Rightarrow> real \<Rightarrow> real"

record TypeTag =
  indices :: Indices
  fluidSystem :: FluidSystem
  numPhases :: nat
  enableSolvent :: bool
  enableExtbo :: bool
  enableSaltPrecipitation :: bool
  enableEnergy :: bool
  blackoilConserveSurfaceVolume :: bool
  NDEBUG :: bool
  capillaryPressures :: "MaterialLawParams \<Rightarrow> (nat \<Rightarrow> real) \<Rightarrow> nat \<Rightarrow> real"
  saltSol :: "nat \<Rightarrow> real"
  extbo_rs :: "nat \<Rightarrow> real \<Rightarrow> real \<Rightarrow> real"
  extbo_rv :: "nat \<Rightarrow> real \<Rightarrow> real \<Rightarrow> real"

text \<open>\<open>static constexpr bool compositionSwitchEnabled = Indices::compositionSwitchIdx >= 0\<close>\<close>

definition compositionSwitchEnabled :: "TypeTag \<Rightarrow> bool" where
  "compositionSwitchEnabled tt = (compositionSwitchIdx (indices tt) \<ge> 0)"

text \<open>
  What the code asks of the problem: the material-law parameters and the maxima of a
  cell (\<open>adaptPrimaryVariables\<close>), and the volumes, depths, threshold pressures and the
  last component of the gravity vector (\<open>computeFlux\<close>).
\<close>

record Problem =
  materialLawParams :: "nat \<Rightarrow> MaterialLawParams"
  maxOilSaturation :: "nat \<Rightarrow> real"
  maxGasDissolutionFactor :: "nat \<Rightarrow> nat \<Rightarrow> real"
  maxOilVaporizationFactor :: "nat \<Rightarrow> nat \<Rightarrow> real"
  dofTotalVolume :: "nat \<Rightarrow> real"
  thresholdPressure :: "nat \<Rightarrow> nat \<Rightarrow> real"
  gravity :: real
  dofCenterDepth :: "nat \<Rightarrow> real"

section \<open>BlackOilPrimaryVariables\<close>

datatype WaterMeaning = WaterSw | WaterRvw | WaterRsw | WaterDisabled

datatype PressureMeaning = PressurePo | PressurePg | PressurePw

datatype GasMeaning = GasSg | GasRs | GasRv | GasDisabled

datatype BrineMeaning = BrineCs | BrineSp | BrineDisabled

text \<open>
  The object: the vector of raw values it inherits (\<open>(*this)[i]\<close>), the four meaning
  tags and the PVT region index.
\<close>

record PrimaryVariables =
  vec :: "int \<Rightarrow> real"
  primaryVarsMeaningWater :: WaterMeaning
  primaryVarsMeaningPressure :: PressureMeaning
  primaryVarsMeaningGas :: GasMeaning
  primaryVarsMeaningBrine :: BrineMeaning
  pvtRegionIdx :: nat

text \<open>
  What ends a call early: a failing \<open>assert\<close> (only when the build does not define
  \<open>NDEBUG\<close>), and the \<open>std::logic_error\<close> that \<open>computeBoundaryFlux\<close> throws,
  with the integer of the boundary-condition type its message prints. The meaning tags
  are datatypes with the enumerators of the source, so the \<open>default:\<close> branches of
  the switches over them (which throw as well) have no value to reach them.
\<close>

datatype error = AssertionFailed | UnknownBoundaryConditionType int

definition setValue :: "PrimaryVariables \<Rightarrow> int \<Rightarrow> real \<Rightarrow> PrimaryVariables" where
  "setValue pv i x = pv\<lparr>vec := (vec pv)(i := x)\<rparr>"

definition solventSaturation :: "TypeTag \<Rightarrow> PrimaryVariables \<Rightarrow> real" where
  "solventSaturation tt pv =
     (if enableSolvent tt then vec pv (solventSaturationIdx (indices tt)) else 0)"

definition zFraction :: "TypeTag \<Rightarrow> PrimaryVariables \<Rightarrow> real" where
  "zFraction tt pv =
     (if enableExtbo tt then vec pv (zFractionIdx (indices tt)) else 0)"

definition temperature :: "TypeTag \<Rightarrow> PrimaryVariables \<Rightarrow> real" where
  "temperature tt pv =
     (if enableEnergy tt then vec pv (temperatureIdx (indices tt))
      else reservoirTemperature (fluidSystem tt))"

text \<open>
  \<open>computeCapillaryPressures_\<close> fills a saturation-only fluid state (water, then oil,
  then gas) and hands it to the material law, which writes the capillary pressure of
  every phase. The fluid state holds nothing but the three saturations that are set.
\<close>

definition computeCapillaryPressures ::
  "TypeTag \<Rightarrow> real \<Rightarrow> real \<Rightarrow> real \<Rightarrow> MaterialLawParams \<Rightarrow> nat \<Rightarrow> real" where
  "computeCapillaryPressures tt so sg sw matParams =
     capillaryPressures tt matParams
       ((\<lambda>_. 0)(waterPhaseIdx (fluidSystem tt) := sw,
                oilPhaseIdx (fluidSystem tt) := so,
                gasPhaseIdx (fluidSystem tt) := sg))"

subsection \<open>adaptPrimaryVariables\<close>

text \<open>
  \<open>static const Scalar thresholdWaterFilledCell = 1.0 - eps;\<close> is a function-local
  static: it is initialised when control first passes its declaration and keeps that
  value. The storage of the static is the \<open>real option\<close> threaded through the calls:
  \<open>None\<close> before the first call.
\<close>

definition thresholdWaterFilledCell :: "real option \<Rightarrow> real \<Rightarrow> real" where
  "thresholdWaterFilledCell static eps =
     (case static of None \<Rightarrow> 1 - eps | Some t \<Rightarrow> t)"

text \<open>The saturations read at the start of the call.\<close>

definition read_sw :: "TypeTag \<Rightarrow> PrimaryVariables \<Rightarrow> real" where
  "read_sw tt pv =
     (if primaryVarsMeaningWater pv = WaterSw then vec pv (waterSwitchIdx (indices tt))
      else 0)"

definition read_sg :: "TypeTag \<Rightarrow> PrimaryVariables \<Rightarrow> real" where
  "read_sg tt pv =
     (let sg = (if primaryVarsMeaningGas pv = GasSg
                then vec pv (compositionSwitchIdx (indices tt)) else 0)
      in if primaryVarsMeaningGas pv = GasDisabled \<and> gasEnabled (indices tt)
         then 1 - read_sw tt pv else sg)"

text \<open>
  The salt block (\<open>if constexpr (enableSaltPrecipitation)\<close>): returns the object and
  the local \<open>saltConcentration\<close>. It runs before \<open>changed\<close> is declared.
\<close>

definition adaptBrine :: "TypeTag \<Rightarrow> PrimaryVariables \<Rightarrow> real \<Rightarrow> PrimaryVariables \<times> real" where
  "adaptBrine tt pv eps =
     (if enableSaltPrecipitation tt then
        (let saltSolubility = saltSol tt (pvtRegionIdx pv) in
         if primaryVarsMeaningBrine pv = BrineSp then
           (let saltSat = vec pv (saltConcentrationIdx (indices tt)) in
            if saltSat < - eps
            then (setValue (pv\<lparr>primaryVarsMeaningBrine := BrineCs\<rparr>)
                    (saltConcentrationIdx (indices tt)) saltSolubility, saltSolubility)
            else (pv, saltSolubility))
         else if primaryVarsMeaningBrine pv = BrineCs then
           (let saltConcentration = vec pv (saltConcentrationIdx (indices tt)) in
            if saltConcentration > saltSolubility + eps
            then (setValue (pv\<lparr>primaryVarsMeaningBrine := BrineSp\<rparr>)
                    (saltConcentrationIdx (indices tt)) 0, saltConcentration)
            else (pv, saltConcentration))
         else (pv, 0))
      else (pv, 0))"

text \<open>The special case of a cell with almost only water (it returns from the call).\<close>

definition adaptWaterFilledCell :: "TypeTag \<Rightarrow> PrimaryVariables \<Rightarrow> error + PrimaryVariables \<times> bool" where
  "adaptWaterFilledCell tt pv =
     (let pv1 = (if waterEnabled (indices tt)
                 then setValue pv (waterSwitchIdx (indices tt)) 1 else pv)
      in if waterEnabled (indices tt) \<and> \<not> NDEBUG tt \<and> primaryVarsMeaningWater pv1 \<noteq> WaterSw
         then Inl AssertionFailed
         else
           (let pv2 = (if compositionSwitchEnabled tt
                       then setValue pv1 (compositionSwitchIdx (indices tt)) 0 else pv1);
                changed = (primaryVarsMeaningGas pv2 \<noteq> GasSg);
                pv3 = (if changed \<and> compositionSwitchEnabled tt
                       then pv2\<lparr>primaryVarsMeaningGas := GasSg\<rparr> else pv2)
            in Inr (pv3, changed)))"

text \<open>
  \<open>switch(primaryVarsMeaningWater())\<close>. The locals \<open>sw\<close>, \<open>sg\<close>, \<open>T\<close> and
  \<open>saltConcentration\<close> are the ones computed before; the object is read where the
  source reads it (the references \<open>pg\<close> and \<open>pw\<close> are read when they are used).
\<close>

definition adaptWater ::
  "TypeTag \<Rightarrow> Problem \<Rightarrow> nat \<Rightarrow> real \<Rightarrow> real \<Rightarrow> real \<Rightarrow> real \<Rightarrow> real \<Rightarrow> PrimaryVariables
     \<Rightarrow> error + PrimaryVariables \<times> bool" where
  "adaptWater tt problem globalDofIdx eps sw sg T saltConcentration pv =
     (let ix = indices tt; fs = fluidSystem tt in
      case primaryVarsMeaningWater pv of
        WaterSw \<Rightarrow>
          if sw < - eps \<and> sg > eps \<and> enableVaporizedWater fs then
            (let p0 = vec pv (pressureSwitchIdx ix);
                 p = (if primaryVarsMeaningPressure pv = PressurePo then
                        (let matParams = materialLawParams problem globalDofIdx;
                             so = 1 - sg - solventSaturation tt pv;
                             pC = computeCapillaryPressures tt so
                                    (sg + solventSaturation tt pv) 0 matParams
                         in p0 + (pC (gasPhaseIdx fs) - pC (oilPhaseIdx fs)))
                      else p0);
                 rvwSat = gasPvt_saturatedWaterVaporizationFactor fs
                            (pvtRegionIdx pv) T p saltConcentration
             in Inr (setValue (pv\<lparr>primaryVarsMeaningWater := WaterRvw\<rparr>)
                       (waterSwitchIdx ix) rvwSat, True))
          else if sg < - eps \<and> sw > eps \<and> enableDissolvedGasInWater fs then
            (if \<not> NDEBUG tt \<and> primaryVarsMeaningPressure pv \<noteq> PressurePg
             then Inl AssertionFailed
             else
               (let matParams = materialLawParams problem globalDofIdx;
                    so = 1 - sw - solventSaturation tt pv;
                    pC = computeCapillaryPressures tt so 0 sw matParams;
                    pw = vec pv (pressureSwitchIdx ix)
                           + (pC (waterPhaseIdx fs) - pC (gasPhaseIdx fs));
                    rswSat = waterPvt_saturatedGasDissolutionFactor fs
                               (pvtRegionIdx pv) T pw saltConcentration;
                    pv1 = setValue (pv\<lparr>primaryVarsMeaningWater := WaterRsw\<rparr>)
                            (waterSwitchIdx ix) rswSat;
                    pv2 = setValue (pv1\<lparr>primaryVarsMeaningPressure := PressurePw\<rparr>)
                            (pressureSwitchIdx ix) pw
                in Inr (pv2, True)))
          else Inr (pv, False)
      | WaterRvw \<Rightarrow>
          (let rvw = vec pv (waterSwitchIdx ix);
               p0 = vec pv (pressureSwitchIdx ix);
               p = (if primaryVarsMeaningPressure pv = PressurePo then
                      (let matParams = materialLawParams problem globalDofIdx;
                           so = 1 - sg - solventSaturation tt pv;
                           pC = computeCapillaryPressures tt so
                                  (sg + solventSaturation tt pv) 0 matParams
                       in p0 + (pC (gasPhaseIdx fs) - pC (oilPhaseIdx fs)))
                    else p0);
               rvwSat = gasPvt_saturatedWaterVaporizationFactor fs
                          (pvtRegionIdx pv) T p saltConcentration
           in if rvw > rvwSat * (1 + eps)
              then Inr (setValue (pv\<lparr>primaryVarsMeaningWater := WaterSw\<rparr>)
                          (waterSwitchIdx ix) 0, True)
              else Inr (pv, False))
      | WaterRsw \<Rightarrow>
          (if \<not> NDEBUG tt \<and> primaryVarsMeaningPressure pv \<noteq> PressurePw
           then Inl AssertionFailed
           else
             (let rswSat = waterPvt_saturatedGasDissolutionFactor fs (pvtRegionIdx pv) T
                             (vec pv (pressureSwitchIdx ix)) saltConcentration;
                  rsw = vec pv (waterSwitchIdx ix)
              in if rsw > rswSat then
                   (let pv1 = setValue (pv\<lparr>primaryVarsMeaningWater := WaterSw\<rparr>)
                                (waterSwitchIdx ix) 1;
                        pv2 = pv1\<lparr>primaryVarsMeaningPressure := PressurePg\<rparr>;
                        matParams = materialLawParams problem globalDofIdx;
                        pC = computeCapillaryPressures tt 0 0 1 matParams;
                        pg = vec pv2 (pressureSwitchIdx ix)
                               + (pC (gasPhaseIdx fs) - pC (waterPhaseIdx fs))
                    in Inr (setValue pv2 (pressureSwitchIdx ix) pg, True))
                 else Inr (pv, False)))
      | WaterDisabled \<Rightarrow> Inr (pv, False))"


text \<open>
  \<open>switch(primaryVarsMeaningGas())\<close>. In the case \<open>GasMeaning::Sg\<close> the two tests
  follow each other without a \<open>break\<close> in between. \<open>changed\<close> is the flag as the water
  switch left it.
\<close>

definition adaptGas ::
  "TypeTag \<Rightarrow> Problem \<Rightarrow> nat \<Rightarrow> real \<Rightarrow> real \<Rightarrow> real \<Rightarrow> real \<Rightarrow> PrimaryVariables \<Rightarrow> bool
     \<Rightarrow> PrimaryVariables \<times> bool" where
  "adaptGas tt problem globalDofIdx eps sw sg T pv changed =
     (let ix = indices tt; fs = fluidSystem tt in
      case primaryVarsMeaningGas pv of
        GasSg \<Rightarrow>
          (let s = 1 - sw - solventSaturation tt pv;
               (pv1, changed1) =
                 (if sg < - eps \<and> s > 0 \<and> enableDissolvedGas fs then
                    (let po = vec pv (pressureSwitchIdx ix);
                         pvA = pv\<lparr>primaryVarsMeaningGas := GasRs\<rparr>;
                         soMax = max s (maxOilSaturation problem globalDofIdx);
                         rsMax = maxGasDissolutionFactor problem 0 globalDofIdx;
                         rsSat = (if enableExtbo tt
                                  then extbo_rs tt (pvtRegionIdx pvA) po (zFraction tt pvA)
                                  else oilPvt_saturatedGasDissolutionFactor fs
                                         (pvtRegionIdx pvA) T po s soMax)
                     in (setValue pvA (compositionSwitchIdx ix) (min rsMax rsSat), True))
                  else (pv, changed));
               so = 1 - sw - solventSaturation tt pv1 - sg
           in if so < - eps \<and> sg > 0 \<and> enableVaporizedOil fs then
                (let po = vec pv1 (pressureSwitchIdx ix);
                     matParams = materialLawParams problem globalDofIdx;
                     pC = computeCapillaryPressures tt 0
                            (sg + solventSaturation tt pv1) sw matParams;
                     pg = po + (pC (gasPhaseIdx fs) - pC (oilPhaseIdx fs));
                     pv2 = setValue (pv1\<lparr>primaryVarsMeaningPressure := PressurePg\<rparr>)
                             (pressureSwitchIdx ix) pg;
                     soMax = maxOilSaturation problem globalDofIdx;
                     rvMax = maxOilVaporizationFactor problem 0 globalDofIdx;
                     rvSat = (if enableExtbo tt
                              then extbo_rv tt (pvtRegionIdx pv2) pg (zFraction tt pv2)
                              else gasPvt_saturatedOilVaporizationFactor fs
                                     (pvtRegionIdx pv2) T pg 0 soMax)
                 in (setValue (pv2\<lparr>primaryVarsMeaningGas := GasRv\<rparr>)
                       (compositionSwitchIdx ix) (min rvMax rvSat), True))
              else (pv1, changed1))
      | GasRs \<Rightarrow>
          (let po = vec pv (pressureSwitchIdx ix);
               so = 1 - sw - solventSaturation tt pv;
               soMax = max so (maxOilSaturation problem globalDofIdx);
               rsMax = maxGasDissolutionFactor problem 0 globalDofIdx;
               rsSat = (if enableExtbo tt
                        then extbo_rs tt (pvtRegionIdx pv) po (zFraction tt pv)
                        else oilPvt_saturatedGasDissolutionFactor fs
                               (pvtRegionIdx pv) T po so soMax);
               rs = vec pv (compositionSwitchIdx ix)
           in if rs > min rsMax (rsSat * (1 + eps))
              then (setValue (pv\<lparr>primaryVarsMeaningGas := GasSg\<rparr>)
                      (compositionSwitchIdx ix) 0, True)
              else (pv, changed))
      | GasRv \<Rightarrow>
          (let pg = vec pv (pressureSwitchIdx ix);
               soMax = maxOilSaturation problem globalDofIdx;
               rvMax = maxOilVaporizationFactor problem 0 globalDofIdx;
               rvSat = (if enableExtbo tt
                        then extbo_rv tt (pvtRegionIdx pv) pg (zFraction tt pv)
                        else gasPvt_saturatedOilVaporizationFactor fs
                               (pvtRegionIdx pv) T pg 0 soMax);
               rv = vec pv (compositionSwitchIdx ix)
           in if rv > min rvMax (rvSat * (1 + eps)) then
                (let sg2 = 1 - sw - solventSaturation tt pv;
                     matParams = materialLawParams problem globalDofIdx;
                     pC = computeCapillaryPressures tt 0
                            (sg2 + solventSaturation tt pv) sw matParams;
                     po = pg + (pC (oilPhaseIdx fs) - pC (gasPhaseIdx fs));
                     pv1 = pv\<lparr>primaryVarsMeaningGas := GasSg,
                              primaryVarsMeaningPressure := PressurePo\<rparr>;
                     pv2 = setValue pv1 (pressureSwitchIdx ix) po
                 in (setValue pv2 (compositionSwitchIdx ix) sg2, True))
              else (pv, changed))
      | GasDisabled \<Rightarrow> (pv, changed))"

text \<open>
  The body of \<open>adaptPrimaryVariables\<close> after the static has its value: the early return
  of the one-phase case, the reads of \<open>sw\<close>, \<open>sg\<close> and \<open>T\<close>, the salt block, the
  water-filled cell, the water switch and the gas switch.
\<close>

definition adaptPrimaryVariablesBody ::
  "TypeTag \<Rightarrow> Problem \<Rightarrow> real \<Rightarrow> PrimaryVariables \<Rightarrow> nat \<Rightarrow> real
     \<Rightarrow> error + PrimaryVariables \<times> bool" where
  "adaptPrimaryVariablesBody tt problem threshold pv globalDofIdx eps =
     (if primaryVarsMeaningWater pv = WaterDisabled \<and> primaryVarsMeaningGas pv = GasDisabled
      then Inr (pv, False)
      else
        (let sw = read_sw tt pv;
             sg = read_sg tt pv;
             T = temperature tt pv;
             (pv1, saltConcentration) = adaptBrine tt pv eps
         in if sw \<ge> threshold \<and> \<not> enableDissolvedGasInWater (fluidSystem tt)
            then adaptWaterFilledCell tt pv1
            else
              (case adaptWater tt problem globalDofIdx eps sw sg T saltConcentration pv1 of
                 Inl e \<Rightarrow> Inl e
               | Inr (pv2, changed) \<Rightarrow>
                   Inr (adaptGas tt problem globalDofIdx eps sw sg T pv2 changed))))"

text \<open>
  A call: the state of the function-local static before the call goes in, its state
  after the call comes out, next to the outcome of the call (the object as the call
  leaves it and the returned flag, or the failure).
\<close>

definition adaptPrimaryVariables ::
  "TypeTag \<Rightarrow> Problem \<Rightarrow> real option \<Rightarrow> PrimaryVariables \<Rightarrow> nat \<Rightarrow> real
     \<Rightarrow> real option \<times> (error + PrimaryVariables \<times> bool)" where
  "adaptPrimaryVariables tt problem static pv globalDofIdx eps =
     (let threshold = thresholdWaterFilledCell static eps
      in (Some threshold, adaptPrimaryVariablesBody tt problem threshold pv globalDofIdx eps))"


subsection \<open>chopAndNormalizeSaturations\<close>



definition chop :: "real \<Rightarrow> real" where
  "chop x = min (max x 0) 1"



section \<open>BlackOilLocalResidualTPFA\<close>


record FluidState =
  saturation :: "nat \<Rightarrow> Evaluation"
  invB :: "nat \<Rightarrow> Evaluation"
  pressure :: "nat \<Rightarrow> Evaluation"
  Rs :: Evaluation
  Rsw :: Evaluation
  Rv :: Evaluation
  Rvw :: Evaluation





definition getInvB :: "LhsEval \<Rightarrow> FluidState \<Rightarrow> nat \<Rightarrow> Evaluation" where
  "getInvB t fs phaseIdx = decay t (invB fs phaseIdx)"

subsection \<open>adaptMassConservationQuantities_\<close>


subsection \<open>computeStorage\<close>







subsection \<open>evalPhaseFluxes_\<close>



subsection \<open>computeFlux\<close>






subsection \<open>computeBoundaryFlux\<close>









subsection \<open>The storage term, slot by slot\<close>



subsection \<open>Notions used to state the properties of the fluxes\<close>





section \<open>Configurations and cells used as concrete inputs\<close>

text \<open>
  A three-phase model without optional modules (\<open>tt3\<close>), the same with gas dissolving
  in water (\<open>tt_rsw\<close>), with salt precipitation (\<open>tt_salt\<close>) and with water
  vaporizing into the gas (\<open>tt_vap\<close>), and a two-phase water-oil model, which has no
  composition switch (\<open>tt_wo\<close>); the primary variables of a few cells. The oracles
  are simple functions, chosen so that the numbers stay small.
\<close>

definition ix3 :: Indices where
  "ix3 = \<lparr>waterSwitchIdx = 0, pressureSwitchIdx = 1, compositionSwitchIdx = 2,
          saltConcentrationIdx = - 1, solventSaturationIdx = - 1, zFractionIdx = - 1,
          temperatureIdx = - 1, waterEnabled = True, gasEnabled = True, oilEnabled = True,
          conti0EqIdx = 0, canonicalToActiveComponentIndex = (\<lambda>c. c)\<rparr>"

definition fs3 :: FluidSystem where
  "fs3 = \<lparr>gasPhaseIdx = 2, oilPhaseIdx = 1, waterPhaseIdx = 0,
          gasCompIdx = 2, oilCompIdx = 0, waterCompIdx = 1,
          phaseIsActive = (\<lambda>p. p < 3),
          solventComponentIndex = (\<lambda>p. if p = 0 then 1 else if p = 1 then 0 else 2),
          enableDissolvedGas = True, enableDissolvedGasInWater = False,
          enableVaporizedOil = True, enableVaporizedWater = False,
          reservoirTemperature = 300,
          referenceDensity = (\<lambda>p r. if p = 0 then 1000 else if p = 1 then 800 else 1),
          gasPvt_saturatedWaterVaporizationFactor = (\<lambda>r T p c. 0),
          waterPvt_saturatedGasDissolutionFactor = (\<lambda>r T p c. 2 * p),
          oilPvt_saturatedGasDissolutionFactor = (\<lambda>r T p so soMax. p),
          gasPvt_saturatedOilVaporizationFactor = (\<lambda>r T p so soMax. 0)\<rparr>"

definition tt3 :: TypeTag where
  "tt3 = \<lparr>indices = ix3, fluidSystem = fs3, numPhases = 3, enableSolvent = False,
          enableExtbo = False, enableSaltPrecipitation = False, enableEnergy = False,
          blackoilConserveSurfaceVolume = True, NDEBUG = False,
          capillaryPressures = (\<lambda>m s p. if p = 0 then - 2 else if p = 2 then 3 else 0),
          saltSol = (\<lambda>r. 0), extbo_rs = (\<lambda>r p z. 0), extbo_rv = (\<lambda>r p z. 0)\<rparr>"

definition prob0 :: Problem where
  "prob0 = \<lparr>materialLawParams = (\<lambda>d. 0), maxOilSaturation = (\<lambda>d. 1),
            maxGasDissolutionFactor = (\<lambda>t d. 100), maxOilVaporizationFactor = (\<lambda>t d. 100),
            dofTotalVolume = (\<lambda>d. 1), thresholdPressure = (\<lambda>i j. 0), gravity = 10,
            dofCenterDepth = (\<lambda>d. 0)\<rparr>"

definition pvA :: PrimaryVariables where
  "pvA = \<lparr>vec = (\<lambda>i. if i = 0 then 999999 / 1000000 else if i = 1 then 100 else 0),
          primaryVarsMeaningWater = WaterSw, primaryVarsMeaningPressure = PressurePo,
          primaryVarsMeaningGas = GasSg, primaryVarsMeaningBrine = BrineDisabled,
          pvtRegionIdx = 0\<rparr>"

definition fs_rsw :: FluidSystem where
  "fs_rsw = fs3\<lparr>enableDissolvedGasInWater := True\<rparr>"

definition tt_rsw :: TypeTag where
  "tt_rsw = tt3\<lparr>fluidSystem := fs_rsw\<rparr>"

definition pv_gasGone :: PrimaryVariables where
  "pv_gasGone = \<lparr>vec = (\<lambda>i. if i = 0 then 995 / 1000 else if i = 1 then 100
                              else if i = 2 then - 2 / 1000000 else 0),
          primaryVarsMeaningWater = WaterSw, primaryVarsMeaningPressure = PressurePg,
          primaryVarsMeaningGas = GasSg, primaryVarsMeaningBrine = BrineDisabled,
          pvtRegionIdx = 0\<rparr>"

definition ix_wo :: Indices where
  "ix_wo = \<lparr>waterSwitchIdx = 0, pressureSwitchIdx = 1, compositionSwitchIdx = - 1,
          saltConcentrationIdx = - 1, solventSaturationIdx = - 1, zFractionIdx = - 1,
          temperatureIdx = - 1, waterEnabled = True, gasEnabled = False, oilEnabled = True,
          conti0EqIdx = 0, canonicalToActiveComponentIndex = (\<lambda>c. c)\<rparr>"

definition fs_wo :: FluidSystem where
  "fs_wo = fs3\<lparr>phaseIsActive := (\<lambda>p. p < 2), enableDissolvedGas := False,
                enableVaporizedOil := False\<rparr>"

definition tt_wo :: TypeTag where
  "tt_wo = tt3\<lparr>indices := ix_wo, fluidSystem := fs_wo\<rparr>"

definition pv_wo :: PrimaryVariables where
  "pv_wo = \<lparr>vec = (\<lambda>i. if i = 0 then 1 else if i = 1 then 100 else 0),
          primaryVarsMeaningWater = WaterSw, primaryVarsMeaningPressure = PressurePo,
          primaryVarsMeaningGas = GasDisabled, primaryVarsMeaningBrine = BrineDisabled,
          pvtRegionIdx = 0\<rparr>"

definition ix_salt :: Indices where
  "ix_salt = ix3\<lparr>saltConcentrationIdx := 3\<rparr>"

definition tt_salt :: TypeTag where
  "tt_salt = tt3\<lparr>indices := ix_salt, enableSaltPrecipitation := True,
                  saltSol := (\<lambda>r. 3 / 10)\<rparr>"

definition pv_salt :: PrimaryVariables where
  "pv_salt = \<lparr>vec = (\<lambda>i. if i = 0 then 1 / 2 else if i = 1 then 100
                           else if i = 2 then 1 / 5 else if i = 3 then - 1 / 10 else 0),
          primaryVarsMeaningWater = WaterSw, primaryVarsMeaningPressure = PressurePo,
          primaryVarsMeaningGas = GasSg, primaryVarsMeaningBrine = BrineSp,
          pvtRegionIdx = 0\<rparr>"

definition pv_over :: PrimaryVariables where
  "pv_over = \<lparr>vec = (\<lambda>i. if i = 0 then 3 / 4 else if i = 1 then 100
                           else if i = 2 then 3 / 4 else 0),
          primaryVarsMeaningWater = WaterSw, primaryVarsMeaningPressure = PressurePo,
          primaryVarsMeaningGas = GasSg, primaryVarsMeaningBrine = BrineDisabled,
          pvtRegionIdx = 0\<rparr>"

definition fs_vap :: FluidSystem where
  "fs_vap = fs3\<lparr>enableVaporizedWater := True\<rparr>"

definition tt_vap :: TypeTag where
  "tt_vap = tt3\<lparr>fluidSystem := fs_vap\<rparr>"

definition pv_cascade :: PrimaryVariables where
  "pv_cascade = \<lparr>vec = (\<lambda>i. if i = 0 then - 1 / 10 else if i = 1 then 100
                              else if i = 2 then 21 / 20 else 0),
          primaryVarsMeaningWater = WaterSw, primaryVarsMeaningPressure = PressurePo,
          primaryVarsMeaningGas = GasSg, primaryVarsMeaningBrine = BrineDisabled,
          pvtRegionIdx = 0\<rparr>"

definition pv_cascade1 :: PrimaryVariables where
  "pv_cascade1 = pv_cascade\<lparr>vec := (vec pv_cascade)(0 := 0),
                             primaryVarsMeaningWater := WaterRvw\<rparr>"

definition pv_cascade2 :: PrimaryVariables where
  "pv_cascade2 = pv_cascade1\<lparr>vec := (vec pv_cascade1)(1 := 103, 2 := 0),
                              primaryVarsMeaningPressure := PressurePg,
                              primaryVarsMeaningGas := GasRv\<rparr>"







lemmas cfg_defs = ix3_def fs3_def tt3_def prob0_def pvA_def fs_rsw_def tt_rsw_def
  pv_gasGone_def ix_wo_def fs_wo_def tt_wo_def pv_wo_def ix_salt_def tt_salt_def
  pv_salt_def pv_over_def fs_vap_def tt_vap_def pv_cascade_def pv_cascade1_def
  pv_cascade2_def


lemmas adapt_defs = adaptPrimaryVariables_def adaptPrimaryVariablesBody_def
  thresholdWaterFilledCell_def read_sw_def read_sg_def temperature_def adaptBrine_def
  adaptWaterFilledCell_def adaptWater_def adaptGas_def setValue_def solventSaturation_def
  zFraction_def computeCapillaryPressures_def compositionSwitchEnabled_def


section \<open>Arithmetic of evaluations\<close>

lemma val_zero [simp]: "val 0 = 0"
  by (simp add: zero_Evaluation_def)

lemma der_zero [simp]: "der 0 i = 0"
  by (simp add: zero_Evaluation_def)

lemma val_one [simp]: "val 1 = 1"
  by (simp add: one_Evaluation_def)

lemma val_add [simp]: "val (a + b) = val a + val b"
  by (simp add: plus_Evaluation_def)

lemma der_add [simp]: "der (a + b) i = der a i + der b i"
  by (simp add: plus_Evaluation_def)

lemma val_uminus [simp]: "val (- a) = - val a"
  by (simp add: uminus_Evaluation_def)

lemma der_uminus [simp]: "der (- a) i = - der a i"
  by (simp add: uminus_Evaluation_def)


lemma der_mult [simp]: "der (a * b) i = der a i * val b + val a * der b i"
  by (simp add: times_Evaluation_def)

lemma val_scalar [simp]: "val (scalar x) = x"
  by (simp add: scalar_def)

lemma der_scalar [simp]: "der (scalar x) i = 0"
  by (simp add: scalar_def)

lemma scalar_zero [simp]: "scalar 0 = 0"
  by (simp add: scalar_def zero_Evaluation_def)

lemma val_decay [simp]: "val (decay t x) = val x"
  by (cases t) (simp_all add: decay_def)

lemma val_sum_list: "val (sum_list xs) = sum_list (map val xs)"
  by (induction xs) simp_all

lemma val_diff [simp]: "val (a - b) = val a - val b"
  by (simp add: minus_Evaluation_def)

lemma der_diff [simp]: "der (a - b) i = der a i - der b i"
  by (simp add: minus_Evaluation_def)


section \<open>Properties of the primary variables\<close>

subsection \<open>The salt block and the gas switch leave the rest alone\<close>

lemma adaptBrine_meanings [simp]:
  "primaryVarsMeaningWater (fst (adaptBrine tt pv eps)) = primaryVarsMeaningWater pv"
  "primaryVarsMeaningGas (fst (adaptBrine tt pv eps)) = primaryVarsMeaningGas pv"
  "primaryVarsMeaningPressure (fst (adaptBrine tt pv eps)) = primaryVarsMeaningPressure pv"
  "pvtRegionIdx (fst (adaptBrine tt pv eps)) = pvtRegionIdx pv"
  by (simp_all add: adaptBrine_def setValue_def Let_def)

lemma adaptBrine_vec:
  "i \<noteq> saltConcentrationIdx (indices tt) \<or> \<not> enableSaltPrecipitation tt
     \<Longrightarrow> vec (fst (adaptBrine tt pv eps)) i = vec pv i"
  by (auto simp add: adaptBrine_def setValue_def Let_def)

lemma adaptGas_flag: "snd (adaptGas tt problem d eps sw sg T pv True) = True"
  by (simp add: adaptGas_def Let_def split: GasMeaning.splits prod.splits)

lemma adaptGas_water [simp]:
  "primaryVarsMeaningWater (fst (adaptGas tt problem d eps sw sg T pv c))
     = primaryVarsMeaningWater pv"
  by (simp add: adaptGas_def Let_def setValue_def split: GasMeaning.splits prod.splits)

lemma adaptGas_keeps_pressure:
  assumes "\<not> sg > 0"
    and "primaryVarsMeaningGas pv = GasSg \<or> primaryVarsMeaningGas pv = GasDisabled"
    and "compositionSwitchIdx (indices tt) \<noteq> pressureSwitchIdx (indices tt)"
  shows "primaryVarsMeaningPressure (fst (adaptGas tt problem d eps sw sg T pv c))
           = primaryVarsMeaningPressure pv
         \<and> vec (fst (adaptGas tt problem d eps sw sg T pv c)) (pressureSwitchIdx (indices tt))
           = vec pv (pressureSwitchIdx (indices tt))"
  using assms by (auto simp add: adaptGas_def Let_def setValue_def split: prod.splits)

lemma adaptGas_keeps_water_slot:
  assumes "\<not> sg > 0"
    and "primaryVarsMeaningGas pv = GasSg \<or> primaryVarsMeaningGas pv = GasDisabled"
    and "compositionSwitchIdx (indices tt) \<noteq> waterSwitchIdx (indices tt)"
  shows "vec (fst (adaptGas tt problem d eps sw sg T pv c)) (waterSwitchIdx (indices tt))
           = vec pv (waterSwitchIdx (indices tt))"
  using assms by (auto simp add: adaptGas_def Let_def setValue_def split: prod.splits)

subsection \<open>The threshold of the water-filled cell\<close>



subsection \<open>The gas phase disappears into the water\<close>

text \<open>
  Claim C4. On a cell whose water slot means the water saturation and whose pressure
  slot means the gas pressure, with gas saturation \<open>sg < - eps\<close>, water saturation
  \<open>sw > eps\<close> and gas dissolving in water enabled, the call returns true, the water
  slot comes to mean the dissolved gas in water and holds the saturated gas dissolution
  factor at the water pressure \<open>pw = pg + (pC_water - pC_gas)\<close>, and the pressure slot
  comes to mean the water pressure and holds \<open>pw\<close>. The tolerance is not negative, and
  the slots of the water, the pressure, the composition and (with salt precipitation)
  the salt are different slots. The gas saturation is the one the call reads, so the
  statement covers the stored gas saturation and the one of a water-gas model.
\<close>

theorem adapt_gas_disappears_to_Rsw:
  assumes w: "primaryVarsMeaningWater pv = WaterSw"
    and p: "primaryVarsMeaningPressure pv = PressurePg"
    and sg: "read_sg tt pv < - eps"
    and sw: "vec pv (waterSwitchIdx (indices tt)) > eps"
    and rsw: "enableDissolvedGasInWater (fluidSystem tt)"
    and eps: "0 \<le> eps"
    and wp: "waterSwitchIdx (indices tt) \<noteq> pressureSwitchIdx (indices tt)"
    and cw: "compositionSwitchIdx (indices tt) \<noteq> waterSwitchIdx (indices tt)"
    and cp: "compositionSwitchIdx (indices tt) \<noteq> pressureSwitchIdx (indices tt)"
    and sp: "enableSaltPrecipitation tt
               \<longrightarrow> saltConcentrationIdx (indices tt) \<noteq> pressureSwitchIdx (indices tt)"
  shows "let pvB = fst (adaptBrine tt pv eps);
             saltConcentration = snd (adaptBrine tt pv eps);
             sw = vec pv (waterSwitchIdx (indices tt));
             pC = computeCapillaryPressures tt (1 - sw - solventSaturation tt pvB) 0 sw
                    (materialLawParams problem globalDofIdx);
             pw = vec pv (pressureSwitchIdx (indices tt))
                    + (pC (waterPhaseIdx (fluidSystem tt)) - pC (gasPhaseIdx (fluidSystem tt)))
         in \<exists>pv'. snd (adaptPrimaryVariables tt problem static pv globalDofIdx eps)
                     = Inr (pv', True)
              \<and> primaryVarsMeaningWater pv' = WaterRsw
              \<and> vec pv' (waterSwitchIdx (indices tt))
                  = waterPvt_saturatedGasDissolutionFactor (fluidSystem tt) (pvtRegionIdx pv)
                      (temperature tt pv) pw saltConcentration
              \<and> primaryVarsMeaningPressure pv' = PressurePw
              \<and> vec pv' (pressureSwitchIdx (indices tt)) = pw"
proof -
  obtain pvB c where B: "adaptBrine tt pv eps = (pvB, c)"
    by (cases "adaptBrine tt pv eps")
  have mB: "primaryVarsMeaningWater pvB = WaterSw"
    "primaryVarsMeaningGas pvB = primaryVarsMeaningGas pv"
    "primaryVarsMeaningPressure pvB = PressurePg"
    "pvtRegionIdx pvB = pvtRegionIdx pv"
    using adaptBrine_meanings [of tt pv eps] w p by (simp_all add: B)
  have pB: "vec pvB (pressureSwitchIdx (indices tt)) = vec pv (pressureSwitchIdx (indices tt))"
    using adaptBrine_vec [of "pressureSwitchIdx (indices tt)" tt pv eps] sp
    by (auto simp add: B)
  define sw0 where "sw0 = vec pv (waterSwitchIdx (indices tt))"
  define pC where "pC = computeCapillaryPressures tt (1 - sw0 - solventSaturation tt pvB) 0 sw0
                    (materialLawParams problem globalDofIdx)"
  define pw where "pw = vec pv (pressureSwitchIdx (indices tt))
                    + (pC (waterPhaseIdx (fluidSystem tt)) - pC (gasPhaseIdx (fluidSystem tt)))"
  define pv2 where "pv2 = setValue
      ((setValue (pvB\<lparr>primaryVarsMeaningWater := WaterRsw\<rparr>) (waterSwitchIdx (indices tt))
          (waterPvt_saturatedGasDissolutionFactor (fluidSystem tt) (pvtRegionIdx pv)
             (temperature tt pv) pw c))\<lparr>primaryVarsMeaningPressure := PressurePw\<rparr>)
      (pressureSwitchIdx (indices tt)) pw"
  have nsg: "\<not> read_sg tt pv > eps" "\<not> read_sg tt pv > 0"
    using sg eps by simp_all
  have gm: "primaryVarsMeaningGas pv = GasSg \<or> primaryVarsMeaningGas pv = GasDisabled"
    using sg eps by (cases "primaryVarsMeaningGas pv") (simp_all add: read_sg_def)
  have water: "adaptWater tt problem globalDofIdx eps sw0 (read_sg tt pv) (temperature tt pv) c pvB
                 = Inr (pv2, True)"
    using mB sg sw rsw nsg pB
    by (simp add: adaptWater_def Let_def pv2_def pw_def pC_def sw0_def)
  have body: "adaptPrimaryVariablesBody tt problem (thresholdWaterFilledCell static eps) pv
                globalDofIdx eps
              = Inr (adaptGas tt problem globalDofIdx eps sw0 (read_sg tt pv) (temperature tt pv)
                       pv2 True)"
    using w rsw water
    by (simp add: adaptPrimaryVariablesBody_def B read_sw_def sw0_def)
  have g2: "primaryVarsMeaningGas pv2 = GasSg \<or> primaryVarsMeaningGas pv2 = GasDisabled"
    using gm mB by (simp add: pv2_def setValue_def)
  let ?r = "adaptGas tt problem globalDofIdx eps sw0 (read_sg tt pv) (temperature tt pv) pv2 True"
  have r: "?r = (fst ?r, True)"
    using adaptGas_flag [of tt problem globalDofIdx eps sw0 "read_sg tt pv" "temperature tt pv" pv2]
    by (cases ?r) simp
  have k1: "primaryVarsMeaningPressure (fst ?r) = PressurePw"
    "vec (fst ?r) (pressureSwitchIdx (indices tt)) = pw"
    using adaptGas_keeps_pressure [OF nsg(2) g2 cp, of problem globalDofIdx eps sw0 "temperature tt pv" True]
    by (simp_all add: pv2_def setValue_def)
  have k2: "vec (fst ?r) (waterSwitchIdx (indices tt))
              = waterPvt_saturatedGasDissolutionFactor (fluidSystem tt) (pvtRegionIdx pv)
                      (temperature tt pv) pw c"
    using adaptGas_keeps_water_slot [OF nsg(2) g2 cw, of problem globalDofIdx eps sw0 "temperature tt pv" True] wp
    by (simp add: pv2_def setValue_def)
  have k3: "primaryVarsMeaningWater (fst ?r) = WaterRsw"
    by (simp add: pv2_def setValue_def)
  have "snd (adaptPrimaryVariables tt problem static pv globalDofIdx eps) = Inr (fst ?r, True)"
    using r by (simp add: adaptPrimaryVariables_def Let_def body)
  then show ?thesis
    using k1 k2 k3 by (simp add: Let_def B sw0_def [symmetric] pC_def [symmetric] pw_def [symmetric])
qed

theorem adapt_gas_disappears_to_Rsw_witness:
  "\<exists>pv'. snd (adaptPrimaryVariables tt_rsw prob0 None pv_gasGone 0 (1 / 1000000))
            = Inr (pv', True)
     \<and> primaryVarsMeaningWater pv' = WaterRsw
     \<and> vec pv' 0 = 190
     \<and> primaryVarsMeaningPressure pv' = PressurePw
     \<and> vec pv' 1 = 95"
proof -
  have ix: "waterSwitchIdx (indices tt_rsw) = 0" "pressureSwitchIdx (indices tt_rsw) = 1"
    "compositionSwitchIdx (indices tt_rsw) = 2"
    "\<not> enableSaltPrecipitation tt_rsw" "\<not> enableSolvent tt_rsw" "\<not> enableEnergy tt_rsw"
    "enableDissolvedGasInWater (fluidSystem tt_rsw)"
    "reservoirTemperature (fluidSystem tt_rsw) = 300"
    "waterPhaseIdx (fluidSystem tt_rsw) = 0" "gasPhaseIdx (fluidSystem tt_rsw) = 2"
    by (simp_all add: cfg_defs)
  have pv: "primaryVarsMeaningWater pv_gasGone = WaterSw"
    "primaryVarsMeaningPressure pv_gasGone = PressurePg"
    "primaryVarsMeaningGas pv_gasGone = GasSg"
    "vec pv_gasGone 0 = 995 / 1000" "vec pv_gasGone 1 = 100" "vec pv_gasGone 2 = - 2 / 1000000"
    "pvtRegionIdx pv_gasGone = 0"
    by (simp_all add: pv_gasGone_def)
  have sg: "read_sg tt_rsw pv_gasGone < - (1 / 1000000)"
    by (simp add: read_sg_def ix pv)
  have pc: "computeCapillaryPressures tt_rsw so sg sw m 0 = - 2"
    "computeCapillaryPressures tt_rsw so sg sw m 2 = 3" for so sg sw m
    by (simp_all add: computeCapillaryPressures_def cfg_defs)
  have f: "waterPvt_saturatedGasDissolutionFactor (fluidSystem tt_rsw) r T p c = 2 * p"
    for r T p c
    by (simp add: cfg_defs)
  show ?thesis
    using adapt_gas_disappears_to_Rsw [of pv_gasGone tt_rsw "1 / 1000000" prob0 0 None, OF pv(1) pv(2) sg]
    by (simp add: ix pv pc f Let_def)
qed

subsection \<open>The cell with almost only water\<close>

text \<open>
  Claim C5, as stated, fails. In a run whose first call had \<open>eps = 0\<close> the threshold
  is frozen at 1, so a later call with tolerance \<open>1e-6\<close> on a cell with
  \<open>sw = 0.999999\<close> leaves the cell as it is and returns false; and in a water-oil
  model, which has no composition switch, the call on a cell with \<open>sw = 1\<close> returns
  true and leaves the gas meaning disabled.
\<close>

theorem adapt_water_filled_cell_counterexample:
  "vec pvA (waterSwitchIdx (indices tt3)) \<ge> 1 - 1 / 1000000
   \<and> \<not> enableDissolvedGasInWater (fluidSystem tt3)
   \<and> snd (adaptPrimaryVariables tt3 prob0
             (fst (adaptPrimaryVariables tt3 prob0 None pvA 0 0)) pvA 0 (1 / 1000000))
       = Inr (pvA, False)
   \<and> vec pvA (waterSwitchIdx (indices tt3)) \<noteq> 1
   \<and> vec pv_wo (waterSwitchIdx (indices tt_wo)) \<ge> 1 - 0
   \<and> \<not> enableDissolvedGasInWater (fluidSystem tt_wo)
   \<and> snd (adaptPrimaryVariables tt_wo prob0 None pv_wo 0 0) = Inr (pv_wo, True)
   \<and> primaryVarsMeaningGas pv_wo \<noteq> GasSg"
  by (auto simp add: cfg_defs adapt_defs Let_def fun_eq_iff)

text \<open>
  Claim C5, amended. When the threshold in effect is \<open>1 - eps\<close> (the first call of a run,
  or a run whose calls all pass this \<open>eps\<close>), the water slot means the water saturation
  and holds at least \<open>1 - eps\<close>, gas dissolving in water is not modelled, and the model
  has the water phase and a composition switch, in a slot other than the water slot:
  the call sets the water slot to 1 and the composition slot to 0, makes the gas meaning
  the gas saturation, leaves the water and pressure meanings and every other slot as the
  salt block left them, and returns true iff the gas meaning was not the gas saturation
  before.
\<close>

theorem adapt_water_filled_cell:
  assumes sw: "primaryVarsMeaningWater pv = WaterSw"
    and thr: "thresholdWaterFilledCell static eps = 1 - eps"
    and full: "vec pv (waterSwitchIdx (indices tt)) \<ge> 1 - eps"
    and nrsw: "\<not> enableDissolvedGasInWater (fluidSystem tt)"
    and we: "waterEnabled (indices tt)"
    and ce: "compositionSwitchEnabled tt"
    and ne: "waterSwitchIdx (indices tt) \<noteq> compositionSwitchIdx (indices tt)"
  shows "\<exists>pv'. adaptPrimaryVariables tt problem static pv globalDofIdx eps
             = (Some (1 - eps), Inr (pv', primaryVarsMeaningGas pv \<noteq> GasSg))
         \<and> vec pv' (waterSwitchIdx (indices tt)) = 1
         \<and> vec pv' (compositionSwitchIdx (indices tt)) = 0
         \<and> primaryVarsMeaningGas pv' = GasSg
         \<and> primaryVarsMeaningWater pv' = WaterSw
         \<and> primaryVarsMeaningPressure pv' = primaryVarsMeaningPressure pv
         \<and> (\<forall>i. i \<noteq> waterSwitchIdx (indices tt) \<and> i \<noteq> compositionSwitchIdx (indices tt)
                \<longrightarrow> vec pv' i = vec (fst (adaptBrine tt pv eps)) i)"
proof -
  obtain pvB c where B: "adaptBrine tt pv eps = (pvB, c)"
    by (cases "adaptBrine tt pv eps")
  have mB: "primaryVarsMeaningWater pvB = WaterSw"
    "primaryVarsMeaningGas pvB = primaryVarsMeaningGas pv"
    "primaryVarsMeaningPressure pvB = primaryVarsMeaningPressure pv"
    using adaptBrine_meanings [of tt pv eps] sw by (simp_all add: B)
  have body: "adaptPrimaryVariablesBody tt problem (1 - eps) pv globalDofIdx eps
                = adaptWaterFilledCell tt pvB"
    using sw full nrsw by (simp add: adaptPrimaryVariablesBody_def read_sw_def B)
  show ?thesis
    using mB we ce ne thr
    by (auto simp add: adaptPrimaryVariables_def body adaptWaterFilledCell_def
        setValue_def Let_def B)
qed

theorem adapt_water_filled_cell_witness:
  "\<exists>pv'. adaptPrimaryVariables tt3 prob0 None (pvA\<lparr>primaryVarsMeaningGas := GasRs\<rparr>) 0 (1 / 1000000)
             = (Some (1 - 1 / 1000000), Inr (pv', True))
         \<and> vec pv' 0 = 1 \<and> vec pv' 2 = 0
         \<and> primaryVarsMeaningGas pv' = GasSg
         \<and> primaryVarsMeaningWater pv' = WaterSw
         \<and> primaryVarsMeaningPressure pv' = PressurePo"
proof -
  have ix: "waterSwitchIdx (indices tt3) = 0" "compositionSwitchIdx (indices tt3) = 2"
    "waterEnabled (indices tt3)" "compositionSwitchEnabled tt3"
    "\<not> enableDissolvedGasInWater (fluidSystem tt3)"
    by (simp_all add: cfg_defs compositionSwitchEnabled_def)
  have pv: "primaryVarsMeaningWater pvA = WaterSw" "vec pvA 0 = 999999 / 1000000"
    "primaryVarsMeaningPressure pvA = PressurePo"
    by (simp_all add: pvA_def)
  show ?thesis
    using adapt_water_filled_cell [of "pvA\<lparr>primaryVarsMeaningGas := GasRs\<rparr>" None "1 / 1000000" tt3 prob0 0]
    by (auto simp add: ix pv thresholdWaterFilledCell_def)
qed

subsection \<open>The returned flag\<close>

text \<open>
  Claim C6, evaluated where the code departs from it. With salt precipitation, a cell
  whose precipitated salt saturation is below \<open>- eps\<close> has its brine meaning switched
  to the salt concentration, yet the call returns false. In a water-oil model, a cell
  with \<open>sw = 1\<close> keeps all four meanings (and all values), yet the call returns true.
\<close>

theorem adapt_flag_disagrees_with_meanings:
  "primaryVarsMeaningBrine pv_salt = BrineSp
   \<and> snd (adaptPrimaryVariables tt_salt prob0 None pv_salt 0 0)
     = Inr (pv_salt\<lparr>vec := (vec pv_salt)(3 := 3 / 10), primaryVarsMeaningBrine := BrineCs\<rparr>, False)
   \<and> snd (adaptPrimaryVariables tt_wo prob0 None pv_wo 0 0) = Inr (pv_wo, True)"
  by (auto simp add: cfg_defs adapt_defs Let_def fun_eq_iff)

subsection \<open>Calling twice\<close>








subsection \<open>The saturations after chopAndNormalizeSaturations\<close>




lemma chop_0 [simp]: "chop 0 = 0"
  by (simp add: chop_def)





section \<open>Properties of the local residual\<close>

subsection \<open>computeStorage\<close>








subsection \<open>The Darcy flux of a phase\<close>









subsection \<open>The flux over a face, seen from either side\<close>



lemma val_getInvB [simp]: "val (getInvB t fs p) = val (invB fs p)"
  by (simp add: getInvB_def)








subsection \<open>computeBoundaryFlux\<close>





end
